theory Spec2Isabelle
  imports Main "HOL-Library.Sublist"
begin

section \<open>Template functions of kops cloudup: data model\<close>

text \<open>
  The embedded file is \<^verbatim>\<open>upup/pkg/fi/cloudup/template_functions.go\<close>.
  Go strings are byte sequences, hence \<^typ>\<open>string\<close>. A Go pointer that a
  configuration may leave nil (\<^verbatim>\<open>ExternalDNS\<close>, \<^verbatim>\<open>WatchIngress\<close>,
  \<^verbatim>\<open>CloudConfig\<close>, \<^verbatim>\<open>VSphereCoreDNSServer\<close>) is an \<^typ>\<open>'a option\<close>.
  The pointers \<^verbatim>\<open>tf.cluster\<close> and the elements of \<^verbatim>\<open>tf.instanceGroups\<close>
  are set by the constructor of the context and are taken as non-nil.
  The struct types come from package \<^verbatim>\<open>kops\<close>; only the fields that the
  embedded functions read are declared.
\<close>

record ExternalDNSConfig =
  WatchIngress :: "bool option"

record CloudConfiguration =
  VSphereCoreDNSServer :: "string option"

record ClusterSpec =
  CloudProvider :: string
  ExternalDNS :: "ExternalDNSConfig option"
  CloudConfig :: "CloudConfiguration option"
  MasterInternalName :: string
  DNSZone :: string
  Project :: string

record Cluster =
  Spec :: ClusterSpec

record ObjectMeta =
  Name :: string

text \<open>
  An instance group carries its metadata; everything else the group holds lives in the
  extension slot of the record, so two groups of one name can still differ.
\<close>

record InstanceGroup =
  ObjectMeta :: ObjectMeta

record 'a TemplateFunctions =
  cluster :: Cluster
  instanceGroups :: "'a InstanceGroup_scheme list"
  tags :: "string set"
  region :: string

subsection \<open>Results, errors, panics and the log\<close>

text \<open>
  \<^verbatim>\<open>fmt.Errorf(format, args...)\<close> is kept as the format string of the source
  with its arguments; the rendering of \<^verbatim>\<open>%q\<close> belongs to Go's library.
  A Go function returning \<^verbatim>\<open>(T, error)\<close> returns a pair in which nil is
  \<^const>\<open>None\<close>; dereferencing a nil pointer panics instead of returning.
  \<^verbatim>\<open>glog\<close> writes to a process-wide log, threaded through as a list of entries.
\<close>

datatype error = Errorf string "string list"

datatype panic = NilPointerDereference

datatype severity = Info | Warning

type_synonym log = "(severity \<times> string) list"

type_synonym 'a returned = "'a option \<times> error option"

type_synonym 'a outcome = "panic + 'a returned"

fun succeeded :: "'a outcome \<Rightarrow> bool" where
  "succeeded (Inr (Some v, None)) = True"
| "succeeded r = False"

fun failed :: "'a outcome \<Rightarrow> bool" where
  "failed (Inr (None, Some e)) = True"
| "failed r = False"

subsection \<open>Collaborators outside the file\<close>

text \<open>
  Modelled from the spec: the constants \<^verbatim>\<open>kops.CloudProviderAWS\<close>,
  \<^verbatim>\<open>kops.CloudProviderGCE\<close> and \<^verbatim>\<open>kops.CloudProviderVSphere\<close> of type
  \<^verbatim>\<open>kops.CloudProviderID\<close> (a string type) are declared in package \<^verbatim>\<open>kops\<close>;
  the spec gives the closed enumeration as aws, gce, vsphere.
\<close>

type_synonym CloudProviderID = string

definition CloudProviderAWS :: CloudProviderID where
  "CloudProviderAWS = ''aws''"

definition CloudProviderGCE :: CloudProviderID where
  "CloudProviderGCE = ''gce''"

definition CloudProviderVSphere :: CloudProviderID where
  "CloudProviderVSphere = ''vsphere''"

text \<open>
  Modelled from the spec: \<^verbatim>\<open>fi.BoolValue\<close> is declared in package \<^verbatim>\<open>fi\<close>;
  the spec resolves the flag with default false when unset.
\<close>

definition BoolValue :: "bool option \<Rightarrow> bool" where
  "BoolValue v = (case v of None \<Rightarrow> False | Some b \<Rightarrow> b)"

text \<open>
  \<^verbatim>\<open>strings.Contains(s, substr)\<close> of Go's library: \<^verbatim>\<open>substr\<close> occurs in
  \<^verbatim>\<open>s\<close> as a contiguous run of bytes.
\<close>

fun Contains :: "string \<Rightarrow> string \<Rightarrow> bool" where
  "Contains [] substr = (substr = [])"
| "Contains (c # s) substr = (prefix substr (c # s) \<or> Contains s substr)"

text \<open>
  \<^verbatim>\<open>dns.IsGossipHostname\<close> is declared in package \<^verbatim>\<open>dns\<close>; the synthesizer
  takes it as the parameter \<open>IsGossipHostname\<close>.
\<close>

section \<open>The template functions\<close>

subsection \<open>GetInstanceGroup\<close>

fun GetInstanceGroup_range ::
  "'a InstanceGroup_scheme list \<Rightarrow> string \<Rightarrow> 'a InstanceGroup_scheme option" where
  "GetInstanceGroup_range [] name = None"
| "GetInstanceGroup_range (ig # igs) name =
     (if Name (ObjectMeta ig) = name then Some ig else GetInstanceGroup_range igs name)"

definition GetInstanceGroup ::
  "'a TemplateFunctions \<Rightarrow> string \<Rightarrow> 'a InstanceGroup_scheme returned" where
  "GetInstanceGroup tf name =
     (case GetInstanceGroup_range (instanceGroups tf) name of
        Some ig \<Rightarrow> (Some ig, None)
      | None \<Rightarrow> (None, Some (Errorf ''InstanceGroup %q not found'' [name])))"

subsection \<open>DnsControllerArgv\<close>

text \<open>Lines 137 to 154: the executable path and the watch-ingress policy.\<close>

definition dnsWatchIngress :: "ClusterSpec \<Rightarrow> log \<Rightarrow> string list \<times> log" where
  "dnsWatchIngress spec lg =
     (let argv = [];
          argv = argv @ [''/usr/bin/dns-controller'']
      in case ExternalDNS spec of
           None \<Rightarrow>
             (argv @ [''--watch-ingress=false''],
              lg @ [(Info, ''watch-ingress=false set on DNSController'')])
         | Some externalDns \<Rightarrow>
             (let watchIngress = BoolValue (WatchIngress externalDns)
              in if watchIngress
                 then (argv,
                       lg @ [(Warning, ''--watch-ingress=true set on DNSController. ''),
                             (Warning, ''this may cause problems with previously defined services: https://github.com/kubernetes/kops/issues/2496'')])
                 else (argv @ [''--watch-ingress=false''], lg)))"

text \<open>Lines 158 to 169: the switch on the cloud provider.\<close>

definition dnsProvider :: "ClusterSpec \<Rightarrow> string list \<Rightarrow> panic + (error + string list)" where
  "dnsProvider spec argv =
     (if CloudProvider spec = CloudProviderAWS then
        Inr (Inr (argv @ [''--dns=aws-route53'']))
      else if CloudProvider spec = CloudProviderGCE then
        Inr (Inr (argv @ [''--dns=google-clouddns'']))
      else if CloudProvider spec = CloudProviderVSphere then
        (let argv = argv @ [''--dns=coredns'']
         in case CloudConfig spec of
              None \<Rightarrow> Inl NilPointerDereference
            | Some cc \<Rightarrow>
                (case VSphereCoreDNSServer cc of
                   None \<Rightarrow> Inl NilPointerDereference
                 | Some server \<Rightarrow> Inr (Inr (argv @ [''--dns-server='' @ server]))))
      else Inr (Inl (Errorf ''unhandled cloudprovider %q'' [CloudProvider spec])))"

text \<open>Lines 171 to 189: gossip seed, zone flags and verbosity.\<close>

definition dnsZone :: "(string \<Rightarrow> bool) \<Rightarrow> ClusterSpec \<Rightarrow> string list \<Rightarrow> string list" where
  "dnsZone IsGossipHostname spec argv0 =
     (let argv = (if IsGossipHostname (MasterInternalName spec)
                  then argv0 @ [''--gossip-seed=127.0.0.1:3999''] else argv0);
          zone = DNSZone spec;
          argv = (if zone \<noteq> []
                  then (if Contains zone ''.''
                        then argv @ [''--zone='' @ zone]
                        else argv @ [''--zone=*/'' @ zone])
                  else argv);
          argv = argv @ [''--zone=*/*''];
          argv = argv @ [''-v=2'']
      in argv)"

definition DnsControllerArgv ::
  "(string \<Rightarrow> bool) \<Rightarrow> 'a TemplateFunctions \<Rightarrow> log \<Rightarrow> string list outcome \<times> log" where
  "DnsControllerArgv IsGossipHostname tf lg =
     (let spec = Spec (cluster tf);
          (argv, lg') = dnsWatchIngress spec lg
      in case dnsProvider spec argv of
           Inl p \<Rightarrow> (Inl p, lg')
         | Inr (Inl err) \<Rightarrow> (Inr (None, Some err), lg')
         | Inr (Inr argv') \<Rightarrow> (Inr (Some (dnsZone IsGossipHostname spec argv'), None), lg'))"

subsection \<open>ExternalDnsArgv\<close>

definition ExternalDnsArgv :: "'a TemplateFunctions \<Rightarrow> string list outcome" where
  "ExternalDnsArgv tf =
     (let argv = [];
          cloudProvider = CloudProvider (Spec (cluster tf))
      in if cloudProvider = CloudProviderAWS then
           (let argv = argv @ [''--provider=aws''];
                argv = argv @ [''--source=ingress'']
            in Inr (Some argv, None))
         else if cloudProvider = CloudProviderGCE then
           (let project = Project (Spec (cluster tf));
                argv = argv @ [''--provider=google''];
                argv = argv @ [''--google-project='' @ project];
                argv = argv @ [''--source=ingress'']
            in Inr (Some argv, None))
         else Inr (None, Some (Errorf ''unhandled cloudprovider %q''
                                  [CloudProvider (Spec (cluster tf))])))"

section \<open>Sample contexts\<close>

text \<open>
  Concrete inputs on which the theorems below are instantiated. \<open>sampleGossip\<close>
  stands in for the hostname test of package \<^verbatim>\<open>dns\<close>.
\<close>

definition sampleGossip :: "string \<Rightarrow> bool" where
  "sampleGossip name = suffix ''.k8s.local'' name"

definition specOf :: "string \<Rightarrow> ClusterSpec" where
  "specOf provider =
     \<lparr>CloudProvider = provider, ExternalDNS = None, CloudConfig = None,
      MasterInternalName = ''api.internal.example.com'', DNSZone = [], Project = []\<rparr>"

definition ctxOf :: "ClusterSpec \<Rightarrow> unit TemplateFunctions" where
  "ctxOf spec = \<lparr>cluster = \<lparr>Spec = spec\<rparr>, instanceGroups = [], tags = {}, region = []\<rparr>"

definition vsphereSpec :: ClusterSpec where
  "vsphereSpec = (specOf ''vsphere'')\<lparr>CloudConfig := Some \<lparr>VSphereCoreDNSServer = Some ''10.0.0.53''\<rparr>\<rparr>"

definition gceSpec :: "string \<Rightarrow> string \<Rightarrow> ClusterSpec" where
  "gceSpec zone project = (specOf ''gce'')\<lparr>DNSZone := zone, Project := project\<rparr>"

definition watchSpec :: "bool option \<Rightarrow> ClusterSpec" where
  "watchSpec w = (specOf ''aws'')\<lparr>ExternalDNS := Some \<lparr>WatchIngress = w\<rparr>\<rparr>"

definition sampleIGs :: "nat InstanceGroup_scheme list" where
  "sampleIGs = [\<lparr>ObjectMeta = \<lparr>Name = ''master-1''\<rparr>, \<dots> = 0\<rparr>,
                \<lparr>ObjectMeta = \<lparr>Name = ''node-1''\<rparr>, \<dots> = 1\<rparr>]"

definition dupIGs :: "nat InstanceGroup_scheme list" where
  "dupIGs = [\<lparr>ObjectMeta = \<lparr>Name = ''master-1''\<rparr>, \<dots> = 0\<rparr>,
             \<lparr>ObjectMeta = \<lparr>Name = ''node-1''\<rparr>, \<dots> = 1\<rparr>,
             \<lparr>ObjectMeta = \<lparr>Name = ''node-1''\<rparr>, \<dots> = 2\<rparr>]"

definition groupsCtx :: "'a InstanceGroup_scheme list \<Rightarrow> 'a TemplateFunctions" where
  "groupsCtx igs = \<lparr>cluster = \<lparr>Spec = specOf ''aws''\<rparr>, instanceGroups = igs, tags = {}, region = []\<rparr>"

section \<open>Auxiliary facts\<close>

lemmas sample_defs = ctxOf_def specOf_def vsphereSpec_def gceSpec_def watchSpec_def
  CloudProviderAWS_def CloudProviderGCE_def CloudProviderVSphere_def

lemmas argv_defs = DnsControllerArgv_def dnsWatchIngress_def dnsProvider_def dnsZone_def
  ExternalDnsArgv_def BoolValue_def

lemma Contains_dot: "Contains s ''.'' \<longleftrightarrow> CHR ''.'' \<in> set s"
  by (induction s) auto

lemma dnsWatchIngress_argv:
  "fst (dnsWatchIngress spec lg) =
     ''/usr/bin/dns-controller'' #
       (case ExternalDNS spec of
          None \<Rightarrow> [''--watch-ingress=false'']
        | Some e \<Rightarrow> if BoolValue (WatchIngress e) then [] else [''--watch-ingress=false''])"
  by (simp add: dnsWatchIngress_def Let_def split: option.split)

lemma dnsProvider_appends:
  assumes "dnsProvider spec argv = Inr (Inr argv')"
  shows "\<exists>ps. argv' = argv @ ps \<and> (\<forall>a\<in>set ps. prefix ''--dns'' a)"
  using assms
  by (auto simp: dnsProvider_def Let_def split: if_splits option.splits)

lemma dnsZone_shape:
  "dnsZone G spec argv =
     argv @ (if G (MasterInternalName spec) then [''--gossip-seed=127.0.0.1:3999''] else [])
          @ (if DNSZone spec = [] then []
             else if CHR ''.'' \<in> set (DNSZone spec) then [''--zone='' @ DNSZone spec]
             else [''--zone=*/'' @ DNSZone spec])
          @ [''--zone=*/*'', ''-v=2'']"
  by (simp add: dnsZone_def Let_def Contains_dot)

lemma DnsControllerArgv_success:
  assumes "fst (DnsControllerArgv G tf lg) = Inr (Some argv, None)"
  shows "\<exists>argv'. dnsProvider (Spec (cluster tf)) (fst (dnsWatchIngress (Spec (cluster tf)) lg)) = Inr (Inr argv')
           \<and> argv = dnsZone G (Spec (cluster tf)) argv'"
  using assms
  by (auto simp: DnsControllerArgv_def Let_def split: prod.splits sum.splits)

lemma DnsControllerArgv_shape:
  assumes "fst (DnsControllerArgv G tf lg) = Inr (Some argv, None)"
  shows "\<exists>ps. (\<forall>a\<in>set ps. prefix ''--dns'' a) \<and>
     argv = ''/usr/bin/dns-controller'' #
       (case ExternalDNS (Spec (cluster tf)) of
          None \<Rightarrow> [''--watch-ingress=false'']
        | Some e \<Rightarrow> if BoolValue (WatchIngress e) then [] else [''--watch-ingress=false''])
       @ ps
       @ (if G (MasterInternalName (Spec (cluster tf))) then [''--gossip-seed=127.0.0.1:3999''] else [])
       @ (if DNSZone (Spec (cluster tf)) = [] then []
             else if CHR ''.'' \<in> set (DNSZone (Spec (cluster tf))) then [''--zone='' @ DNSZone (Spec (cluster tf))]
             else [''--zone=*/'' @ DNSZone (Spec (cluster tf))])
       @ [''--zone=*/*'', ''-v=2'']"
proof -
  from DnsControllerArgv_success [OF assms] obtain argv' where
    p: "dnsProvider (Spec (cluster tf)) (fst (dnsWatchIngress (Spec (cluster tf)) lg)) = Inr (Inr argv')"
    and z: "argv = dnsZone G (Spec (cluster tf)) argv'" by blast
  from dnsProvider_appends [OF p] obtain ps where
    ps: "argv' = fst (dnsWatchIngress (Spec (cluster tf)) lg) @ ps" "\<forall>a\<in>set ps. prefix ''--dns'' a"
    by blast
  show ?thesis
    using ps z by (intro exI [of _ ps]) (simp add: dnsZone_shape dnsWatchIngress_argv)
qed

lemma DnsControllerArgv_fst:
  "fst (DnsControllerArgv G tf lg) =
     (case dnsProvider (Spec (cluster tf)) (fst (dnsWatchIngress (Spec (cluster tf)) lg)) of
           Inl p \<Rightarrow> Inl p
         | Inr (Inl err) \<Rightarrow> Inr (None, Some err)
         | Inr (Inr argv') \<Rightarrow> Inr (Some (dnsZone G (Spec (cluster tf)) argv'), None))"
  by (simp add: DnsControllerArgv_def Let_def split: prod.splits sum.splits)

lemma DnsControllerArgv_reads_cluster:
  "cluster tf = cluster tf' \<Longrightarrow>
     fst (DnsControllerArgv G tf lg) = fst (DnsControllerArgv G tf' lg')"
  by (simp add: DnsControllerArgv_fst dnsWatchIngress_argv split: sum.splits)

lemma ExternalDnsArgv_reads_cluster:
  "cluster tf = cluster tf' \<Longrightarrow> ExternalDnsArgv tf = ExternalDnsArgv tf'"
  by (simp add: ExternalDnsArgv_def Let_def)

lemma GetInstanceGroup_range_None:
  "GetInstanceGroup_range igs name = None \<longleftrightarrow> (\<forall>ig\<in>set igs. Name (ObjectMeta ig) \<noteq> name)"
  by (induction igs) auto

lemma GetInstanceGroup_range_Some:
  "GetInstanceGroup_range igs name = Some ig \<Longrightarrow> ig \<in> set igs \<and> Name (ObjectMeta ig) = name"
  by (induction igs) (auto split: if_splits)

lemma GetInstanceGroup_range_first:
  "i < length igs \<Longrightarrow> Name (ObjectMeta (igs ! i)) = name \<Longrightarrow>
   \<forall>j<i. Name (ObjectMeta (igs ! j)) \<noteq> name \<Longrightarrow>
   GetInstanceGroup_range igs name = Some (igs ! i)"
proof (induction igs arbitrary: i)
  case Nil
  then show ?case by simp
next
  case (Cons g igs)
  show ?case
  proof (cases i)
    case 0
    with Cons.prems show ?thesis by simp
  next
    case (Suc k)
    with Cons.prems have "Name (ObjectMeta g) \<noteq> name" by auto
    moreover have "GetInstanceGroup_range igs name = Some (igs ! k)"
      using Cons.prems Suc by (intro Cons.IH) auto
    ultimately show ?thesis using Suc by simp
  qed
qed

section \<open>Provider dispatch\<close>

text \<open>
  C1. DnsControllerArgv returns an argument sequence for the providers aws and gce, and
  for vsphere when the CoreDNS server address is configured; ExternalDnsArgv returns an
  argument sequence for aws and gce and fails with an error for vsphere, for which its
  switch has no case; for every provider string outside the three, both fail with an
  error.
\<close>

theorem provider_dispatch:
  "(CloudProvider (Spec (cluster tf)) \<in> {CloudProviderAWS, CloudProviderGCE} \<longrightarrow>
      succeeded (fst (DnsControllerArgv G tf lg)) \<and> succeeded (ExternalDnsArgv tf))
   \<and> (CloudProvider (Spec (cluster tf)) = CloudProviderVSphere \<longrightarrow>
      (\<forall>cc server. CloudConfig (Spec (cluster tf)) = Some cc \<and> VSphereCoreDNSServer cc = Some server
         \<longrightarrow> succeeded (fst (DnsControllerArgv G tf lg)))
      \<and> failed (ExternalDnsArgv tf))
   \<and> (CloudProvider (Spec (cluster tf)) \<notin> {CloudProviderAWS, CloudProviderGCE, CloudProviderVSphere} \<longrightarrow>
      failed (fst (DnsControllerArgv G tf lg)) \<and> failed (ExternalDnsArgv tf))"
  by (auto simp: DnsControllerArgv_def dnsProvider_def ExternalDnsArgv_def Let_def
      CloudProviderAWS_def CloudProviderGCE_def CloudProviderVSphere_def
      split: prod.splits)

theorem provider_dispatch_witness:
  "succeeded (fst (DnsControllerArgv sampleGossip (ctxOf (specOf ''aws'')) []))
   \<and> succeeded (ExternalDnsArgv (ctxOf (specOf ''aws'')))
   \<and> succeeded (fst (DnsControllerArgv sampleGossip (ctxOf (specOf ''gce'')) []))
   \<and> succeeded (ExternalDnsArgv (ctxOf (specOf ''gce'')))
   \<and> succeeded (fst (DnsControllerArgv sampleGossip (ctxOf vsphereSpec) []))
   \<and> failed (ExternalDnsArgv (ctxOf vsphereSpec))
   \<and> failed (fst (DnsControllerArgv sampleGossip (ctxOf (specOf ''azure'')) []))
   \<and> failed (ExternalDnsArgv (ctxOf (specOf ''azure'')))"
  using provider_dispatch [of "ctxOf (specOf ''aws'')" sampleGossip "[]"]
    provider_dispatch [of "ctxOf (specOf ''gce'')" sampleGossip "[]"]
    provider_dispatch [of "ctxOf vsphereSpec" sampleGossip "[]"]
    provider_dispatch [of "ctxOf (specOf ''azure'')" sampleGossip "[]"]
  by (simp add: sample_defs)

text \<open>
  The enumeration aws, gce, vsphere is not the success set of both synthesizers: with
  provider vsphere, ExternalDnsArgv does not return an argument sequence.
\<close>

theorem ExternalDnsArgv_vsphere_counterexample:
  "CloudProvider (Spec (cluster (ctxOf vsphereSpec)))
     \<in> {CloudProviderAWS, CloudProviderGCE, CloudProviderVSphere}
   \<and> \<not> succeeded (ExternalDnsArgv (ctxOf vsphereSpec))"
  by (simp add: sample_defs ExternalDnsArgv_def)

text \<open>
  C2. For a provider string outside aws, gce and vsphere, DnsControllerArgv and
  ExternalDnsArgv each return the error built from the format
  \<^verbatim>\<open>unhandled cloudprovider %q\<close> and the offending provider string, and the
  returned argument sequence is nil.
\<close>

theorem unhandled_cloudprovider:
  assumes "CloudProvider (Spec (cluster tf)) \<notin> {CloudProviderAWS, CloudProviderGCE, CloudProviderVSphere}"
  shows "fst (DnsControllerArgv G tf lg) =
           Inr (None, Some (Errorf ''unhandled cloudprovider %q'' [CloudProvider (Spec (cluster tf))]))
       \<and> ExternalDnsArgv tf =
           Inr (None, Some (Errorf ''unhandled cloudprovider %q'' [CloudProvider (Spec (cluster tf))]))"
  using assms
  by (auto simp: DnsControllerArgv_def dnsProvider_def ExternalDnsArgv_def Let_def
      split: prod.splits)

theorem unhandled_cloudprovider_witness:
  "CloudProvider (Spec (cluster (ctxOf (specOf ''azure''))))
      \<notin> {CloudProviderAWS, CloudProviderGCE, CloudProviderVSphere}
   \<and> fst (DnsControllerArgv sampleGossip (ctxOf (specOf ''azure'')) []) =
           Inr (None, Some (Errorf ''unhandled cloudprovider %q'' [''azure'']))
   \<and> ExternalDnsArgv (ctxOf (specOf ''azure'')) =
           Inr (None, Some (Errorf ''unhandled cloudprovider %q'' [''azure'']))"
proof -
  have h: "CloudProvider (Spec (cluster (ctxOf (specOf ''azure''))))
      \<notin> {CloudProviderAWS, CloudProviderGCE, CloudProviderVSphere}"
    by (simp add: sample_defs)
  have v: "CloudProvider (Spec (cluster (ctxOf (specOf ''azure'')))) = ''azure''"
    by (simp add: sample_defs)
  from unhandled_cloudprovider [OF h, of sampleGossip "[]"] h v show ?thesis
    by simp
qed

section \<open>Fixed outputs\<close>

text \<open>
  C3. With provider AWS, no external-DNS configuration, a master internal name that is
  not a gossip hostname and an empty DNS zone, DnsControllerArgv returns exactly the five
  arguments: the executable, the watch-ingress suppression, the Route53 backend, the
  wildcard zone and the verbosity.
\<close>

theorem DnsControllerArgv_aws_default:
  assumes "CloudProvider (Spec (cluster tf)) = CloudProviderAWS"
    and "ExternalDNS (Spec (cluster tf)) = None"
    and "\<not> IsGossipHostname (MasterInternalName (Spec (cluster tf)))"
    and "DNSZone (Spec (cluster tf)) = []"
  shows "fst (DnsControllerArgv IsGossipHostname tf lg) =
           Inr (Some [''/usr/bin/dns-controller'', ''--watch-ingress=false'',
                      ''--dns=aws-route53'', ''--zone=*/*'', ''-v=2''], None)"
  using assms
  by (simp add: DnsControllerArgv_def dnsWatchIngress_def dnsProvider_def dnsZone_def
      CloudProviderAWS_def)

theorem DnsControllerArgv_aws_default_witness:
  "CloudProvider (Spec (cluster (ctxOf (specOf ''aws'')))) = CloudProviderAWS
   \<and> ExternalDNS (Spec (cluster (ctxOf (specOf ''aws'')))) = None
   \<and> \<not> sampleGossip (MasterInternalName (Spec (cluster (ctxOf (specOf ''aws'')))))
   \<and> DNSZone (Spec (cluster (ctxOf (specOf ''aws'')))) = []
   \<and> fst (DnsControllerArgv sampleGossip (ctxOf (specOf ''aws'')) []) =
           Inr (Some [''/usr/bin/dns-controller'', ''--watch-ingress=false'',
                      ''--dns=aws-route53'', ''--zone=*/*'', ''-v=2''], None)"
proof -
  have p: "CloudProvider (Spec (cluster (ctxOf (specOf ''aws'')))) = CloudProviderAWS"
    by (simp add: ctxOf_def specOf_def CloudProviderAWS_def)
  have e: "ExternalDNS (Spec (cluster (ctxOf (specOf ''aws'')))) = None"
    by (simp add: ctxOf_def specOf_def)
  have g: "\<not> sampleGossip (MasterInternalName (Spec (cluster (ctxOf (specOf ''aws'')))))"
    by (simp add: ctxOf_def specOf_def sampleGossip_def suffix_to_prefix)
  have z: "DNSZone (Spec (cluster (ctxOf (specOf ''aws'')))) = []"
    by (simp add: ctxOf_def specOf_def)
  from DnsControllerArgv_aws_default [of "ctxOf (specOf ''aws'')" sampleGossip "[]"] p e g z
  show ?thesis
    by simp
qed

text \<open>
  C7. With provider GCE, ExternalDnsArgv returns exactly the provider flag, the project
  flag carrying the project of the cluster spec unchanged, and the ingress source last;
  for project proj-x this is the sequence of the claim.
\<close>

theorem ExternalDnsArgv_gce:
  assumes "CloudProvider (Spec (cluster tf)) = CloudProviderGCE"
  shows "ExternalDnsArgv tf =
           Inr (Some [''--provider=google'',
                      ''--google-project='' @ Project (Spec (cluster tf)),
                      ''--source=ingress''], None)"
  using assms
  by (simp add: ExternalDnsArgv_def Let_def CloudProviderAWS_def CloudProviderGCE_def)

theorem ExternalDnsArgv_gce_witness:
  "CloudProvider (Spec (cluster (ctxOf (gceSpec [] ''proj-x'')))) = CloudProviderGCE
   \<and> Project (Spec (cluster (ctxOf (gceSpec [] ''proj-x'')))) = ''proj-x''
   \<and> ExternalDnsArgv (ctxOf (gceSpec [] ''proj-x'')) =
       Inr (Some [''--provider=google'', ''--google-project=proj-x'', ''--source=ingress''], None)"
proof -
  have h: "CloudProvider (Spec (cluster (ctxOf (gceSpec [] ''proj-x'')))) = CloudProviderGCE"
    by (simp add: sample_defs)
  have p: "Project (Spec (cluster (ctxOf (gceSpec [] ''proj-x'')))) = ''proj-x''"
    by (simp add: sample_defs)
  from ExternalDnsArgv_gce [OF h] h p show ?thesis
    by simp
qed

section \<open>Watch-ingress policy\<close>

text \<open>
  C4. With an external-DNS configuration whose watch-ingress flag resolves to true, the
  token \<^verbatim>\<open>--watch-ingress=false\<close> is absent; with the flag resolving to false
  (an absent flag resolves to false) or with no external-DNS configuration, the token is
  emitted. This holds for the builder after the policy step and for every returned
  sequence.
\<close>

theorem DnsControllerArgv_watch_ingress:
  "(ExternalDNS (Spec (cluster tf)) = None \<longrightarrow>
      ''--watch-ingress=false'' \<in> set (fst (dnsWatchIngress (Spec (cluster tf)) lg)))
   \<and> (\<forall>e. ExternalDNS (Spec (cluster tf)) = Some e \<and> BoolValue (WatchIngress e) \<longrightarrow>
      ''--watch-ingress=false'' \<notin> set (fst (dnsWatchIngress (Spec (cluster tf)) lg)))
   \<and> (\<forall>e. ExternalDNS (Spec (cluster tf)) = Some e \<and> \<not> BoolValue (WatchIngress e) \<longrightarrow>
      ''--watch-ingress=false'' \<in> set (fst (dnsWatchIngress (Spec (cluster tf)) lg)))
   \<and> (\<forall>argv. fst (DnsControllerArgv G tf lg) = Inr (Some argv, None) \<longrightarrow>
        (ExternalDNS (Spec (cluster tf)) = None \<longrightarrow> ''--watch-ingress=false'' \<in> set argv)
        \<and> (\<forall>e. ExternalDNS (Spec (cluster tf)) = Some e \<and> BoolValue (WatchIngress e) \<longrightarrow>
              ''--watch-ingress=false'' \<notin> set argv)
        \<and> (\<forall>e. ExternalDNS (Spec (cluster tf)) = Some e \<and> \<not> BoolValue (WatchIngress e) \<longrightarrow>
              ''--watch-ingress=false'' \<in> set argv))
   \<and> \<not> BoolValue None"
proof -
  have step: "''--watch-ingress=false'' \<in> set (fst (dnsWatchIngress (Spec (cluster tf)) lg'))
      \<longleftrightarrow> (\<forall>e. ExternalDNS (Spec (cluster tf)) = Some e \<longrightarrow> \<not> BoolValue (WatchIngress e))"
    for lg'
    by (simp add: dnsWatchIngress_argv split: option.split)
  have ret: "''--watch-ingress=false'' \<in> set argv
      \<longleftrightarrow> (\<forall>e. ExternalDNS (Spec (cluster tf)) = Some e \<longrightarrow> \<not> BoolValue (WatchIngress e))"
    if ok: "fst (DnsControllerArgv G tf lg) = Inr (Some argv, None)" for argv
  proof -
    from DnsControllerArgv_shape [OF ok] obtain ps where
      ps: "\<forall>a\<in>set ps. prefix ''--dns'' a" and
      argv: "argv = ''/usr/bin/dns-controller'' #
         (case ExternalDNS (Spec (cluster tf)) of
            None \<Rightarrow> [''--watch-ingress=false'']
          | Some e \<Rightarrow> if BoolValue (WatchIngress e) then [] else [''--watch-ingress=false''])
         @ ps
         @ (if G (MasterInternalName (Spec (cluster tf))) then [''--gossip-seed=127.0.0.1:3999''] else [])
         @ (if DNSZone (Spec (cluster tf)) = [] then []
               else if CHR ''.'' \<in> set (DNSZone (Spec (cluster tf))) then [''--zone='' @ DNSZone (Spec (cluster tf))]
               else [''--zone=*/'' @ DNSZone (Spec (cluster tf))])
         @ [''--zone=*/*'', ''-v=2'']"
      by blast
    have "''--watch-ingress=false'' \<notin> set ps"
      using ps by auto
    then show ?thesis
      by (simp add: argv split: option.split)
  qed
  show ?thesis
    using step [of lg] ret by (auto simp: BoolValue_def)
qed

theorem DnsControllerArgv_watch_ingress_witness:
  "fst (DnsControllerArgv sampleGossip (ctxOf (watchSpec (Some True))) []) =
      Inr (Some [''/usr/bin/dns-controller'', ''--dns=aws-route53'', ''--zone=*/*'', ''-v=2''], None)
   \<and> ''--watch-ingress=false'' \<notin> set [''/usr/bin/dns-controller'', ''--dns=aws-route53'',
                                          ''--zone=*/*'', ''-v=2'']
   \<and> fst (DnsControllerArgv sampleGossip (ctxOf (watchSpec (Some False))) []) =
      Inr (Some [''/usr/bin/dns-controller'', ''--watch-ingress=false'', ''--dns=aws-route53'',
                 ''--zone=*/*'', ''-v=2''], None)
   \<and> fst (DnsControllerArgv sampleGossip (ctxOf (watchSpec None)) []) =
      Inr (Some [''/usr/bin/dns-controller'', ''--watch-ingress=false'', ''--dns=aws-route53'',
                 ''--zone=*/*'', ''-v=2''], None)
   \<and> fst (DnsControllerArgv sampleGossip (ctxOf (specOf ''aws'')) []) =
      Inr (Some [''/usr/bin/dns-controller'', ''--watch-ingress=false'', ''--dns=aws-route53'',
                 ''--zone=*/*'', ''-v=2''], None)"
  using DnsControllerArgv_watch_ingress [of "ctxOf (watchSpec (Some True))" "[]" sampleGossip]
    DnsControllerArgv_watch_ingress [of "ctxOf (watchSpec (Some False))" "[]" sampleGossip]
    DnsControllerArgv_watch_ingress [of "ctxOf (watchSpec None)" "[]" sampleGossip]
    DnsControllerArgv_watch_ingress [of "ctxOf (specOf ''aws'')" "[]" sampleGossip]
  by (simp add: sample_defs argv_defs sampleGossip_def suffix_to_prefix)

text \<open>
  C9. A sequence returned by DnsControllerArgv never contains
  \<^verbatim>\<open>--watch-ingress=true\<close>; its only token that starts with
  \<^verbatim>\<open>--watch-ingress\<close> is \<^verbatim>\<open>--watch-ingress=false\<close>.
\<close>

theorem DnsControllerArgv_never_watch_ingress_true:
  assumes "fst (DnsControllerArgv G tf lg) = Inr (Some argv, None)"
  shows "''--watch-ingress=true'' \<notin> set argv
       \<and> (\<forall>a\<in>set argv. prefix ''--watch-ingress'' a \<longrightarrow> a = ''--watch-ingress=false'')"
proof -
  from DnsControllerArgv_shape [OF assms] obtain ps where
    ps: "\<forall>a\<in>set ps. prefix ''--dns'' a" and
    argv: "argv = ''/usr/bin/dns-controller'' #
       (case ExternalDNS (Spec (cluster tf)) of
          None \<Rightarrow> [''--watch-ingress=false'']
        | Some e \<Rightarrow> if BoolValue (WatchIngress e) then [] else [''--watch-ingress=false''])
       @ ps
       @ (if G (MasterInternalName (Spec (cluster tf))) then [''--gossip-seed=127.0.0.1:3999''] else [])
       @ (if DNSZone (Spec (cluster tf)) = [] then []
             else if CHR ''.'' \<in> set (DNSZone (Spec (cluster tf))) then [''--zone='' @ DNSZone (Spec (cluster tf))]
             else [''--zone=*/'' @ DNSZone (Spec (cluster tf))])
       @ [''--zone=*/*'', ''-v=2'']"
    by blast
  have nw: "\<forall>a\<in>set ps. \<not> prefix ''--watch-ingress'' a"
    using ps by (auto simp: prefix_def)
  have only: "\<forall>a\<in>set argv. prefix ''--watch-ingress'' a \<longrightarrow> a = ''--watch-ingress=false''"
    using nw by (auto simp: argv split: option.splits)
  then show ?thesis
    by auto
qed

theorem DnsControllerArgv_never_watch_ingress_true_witness:
  "fst (DnsControllerArgv sampleGossip (ctxOf (watchSpec (Some True))) []) =
      Inr (Some [''/usr/bin/dns-controller'', ''--dns=aws-route53'', ''--zone=*/*'', ''-v=2''], None)
   \<and> ''--watch-ingress=true'' \<notin> set [''/usr/bin/dns-controller'', ''--dns=aws-route53'',
                                         ''--zone=*/*'', ''-v=2'']
   \<and> fst (DnsControllerArgv sampleGossip (ctxOf (watchSpec (Some False))) []) =
      Inr (Some [''/usr/bin/dns-controller'', ''--watch-ingress=false'', ''--dns=aws-route53'',
                 ''--zone=*/*'', ''-v=2''], None)
   \<and> ''--watch-ingress=true'' \<notin> set [''/usr/bin/dns-controller'', ''--watch-ingress=false'',
                                         ''--dns=aws-route53'', ''--zone=*/*'', ''-v=2'']"
proof -
  have t: "fst (DnsControllerArgv sampleGossip (ctxOf (watchSpec (Some True))) []) =
      Inr (Some [''/usr/bin/dns-controller'', ''--dns=aws-route53'', ''--zone=*/*'', ''-v=2''], None)"
    by (simp add: sample_defs argv_defs sampleGossip_def suffix_to_prefix)
  have f: "fst (DnsControllerArgv sampleGossip (ctxOf (watchSpec (Some False))) []) =
      Inr (Some [''/usr/bin/dns-controller'', ''--watch-ingress=false'', ''--dns=aws-route53'',
                 ''--zone=*/*'', ''-v=2''], None)"
    by (simp add: sample_defs argv_defs sampleGossip_def suffix_to_prefix)
  from DnsControllerArgv_never_watch_ingress_true [OF t]
    DnsControllerArgv_never_watch_ingress_true [OF f] t f
  show ?thesis
    by simp
qed
section \<open>Zone flags\<close>

text \<open>
  C5. In a sequence returned by DnsControllerArgv: a non-empty zone with a dot gives
  \<^verbatim>\<open>--zone=<zone>\<close>, a non-empty zone without a dot gives
  \<^verbatim>\<open>--zone=*/<zone>\<close>, an empty zone gives neither; the zone-specific token,
  when there is one, stands immediately before the wildcard \<^verbatim>\<open>--zone=*/*\<close>,
  which is followed only by the verbosity flag, and nothing before them is a zone flag.
\<close>

theorem DnsControllerArgv_zone_flags:
  assumes "fst (DnsControllerArgv G tf lg) = Inr (Some argv, None)"
  shows "(DNSZone (Spec (cluster tf)) \<noteq> [] \<and> CHR ''.'' \<in> set (DNSZone (Spec (cluster tf))) \<longrightarrow>
            ''--zone='' @ DNSZone (Spec (cluster tf)) \<in> set argv)
       \<and> (DNSZone (Spec (cluster tf)) \<noteq> [] \<and> CHR ''.'' \<notin> set (DNSZone (Spec (cluster tf))) \<longrightarrow>
            ''--zone=*/'' @ DNSZone (Spec (cluster tf)) \<in> set argv)
       \<and> (DNSZone (Spec (cluster tf)) = [] \<longrightarrow>
            ''--zone='' \<notin> set argv \<and> ''--zone=*/'' \<notin> set argv
            \<and> (\<forall>a\<in>set argv. prefix ''--zone='' a \<longrightarrow> a = ''--zone=*/*''))
       \<and> (\<exists>pre. (\<forall>a\<in>set pre. \<not> prefix ''--zone='' a) \<and>
            argv = pre @
              (if DNSZone (Spec (cluster tf)) = [] then []
               else if CHR ''.'' \<in> set (DNSZone (Spec (cluster tf)))
                    then [''--zone='' @ DNSZone (Spec (cluster tf))]
                    else [''--zone=*/'' @ DNSZone (Spec (cluster tf))])
              @ [''--zone=*/*'', ''-v=2''])"
proof -
  from DnsControllerArgv_shape [OF assms] obtain ps where
    ps: "\<forall>a\<in>set ps. prefix ''--dns'' a" and
    argv: "argv = ''/usr/bin/dns-controller'' #
       (case ExternalDNS (Spec (cluster tf)) of
          None \<Rightarrow> [''--watch-ingress=false'']
        | Some e \<Rightarrow> if BoolValue (WatchIngress e) then [] else [''--watch-ingress=false''])
       @ ps
       @ (if G (MasterInternalName (Spec (cluster tf))) then [''--gossip-seed=127.0.0.1:3999''] else [])
       @ (if DNSZone (Spec (cluster tf)) = [] then []
             else if CHR ''.'' \<in> set (DNSZone (Spec (cluster tf))) then [''--zone='' @ DNSZone (Spec (cluster tf))]
             else [''--zone=*/'' @ DNSZone (Spec (cluster tf))])
       @ [''--zone=*/*'', ''-v=2'']"
    by blast
  define pre where "pre = ''/usr/bin/dns-controller'' #
       (case ExternalDNS (Spec (cluster tf)) of
          None \<Rightarrow> [''--watch-ingress=false'']
        | Some e \<Rightarrow> if BoolValue (WatchIngress e) then [] else [''--watch-ingress=false''])
       @ ps
       @ (if G (MasterInternalName (Spec (cluster tf))) then [''--gossip-seed=127.0.0.1:3999''] else [])"
  have nz: "\<forall>a\<in>set ps. \<not> prefix ''--zone='' a"
    using ps by (auto simp: prefix_def)
  have pre: "\<forall>a\<in>set pre. \<not> prefix ''--zone='' a"
    using nz by (auto simp: pre_def split: option.splits)
  have split: "argv = pre @
              (if DNSZone (Spec (cluster tf)) = [] then []
               else if CHR ''.'' \<in> set (DNSZone (Spec (cluster tf)))
                    then [''--zone='' @ DNSZone (Spec (cluster tf))]
                    else [''--zone=*/'' @ DNSZone (Spec (cluster tf))])
              @ [''--zone=*/*'', ''-v=2'']"
    by (simp add: argv pre_def)
  have a: "DNSZone (Spec (cluster tf)) \<noteq> [] \<and> CHR ''.'' \<in> set (DNSZone (Spec (cluster tf))) \<longrightarrow>
            ''--zone='' @ DNSZone (Spec (cluster tf)) \<in> set argv"
    by (simp add: split)
  have b: "DNSZone (Spec (cluster tf)) \<noteq> [] \<and> CHR ''.'' \<notin> set (DNSZone (Spec (cluster tf))) \<longrightarrow>
            ''--zone=*/'' @ DNSZone (Spec (cluster tf)) \<in> set argv"
    by (simp add: split)
  have c: "DNSZone (Spec (cluster tf)) = [] \<longrightarrow>
            ''--zone='' \<notin> set argv \<and> ''--zone=*/'' \<notin> set argv
            \<and> (\<forall>a\<in>set argv. prefix ''--zone='' a \<longrightarrow> a = ''--zone=*/*'')"
    using pre by (auto simp: split)
  from a b c pre split show ?thesis
    by blast
qed

theorem DnsControllerArgv_zone_flags_witness:
  "fst (DnsControllerArgv sampleGossip (ctxOf (gceSpec ''Z123'' [])) []) =
      Inr (Some [''/usr/bin/dns-controller'', ''--watch-ingress=false'', ''--dns=google-clouddns'',
                 ''--zone=*/Z123'', ''--zone=*/*'', ''-v=2''], None)
   \<and> fst (DnsControllerArgv sampleGossip (ctxOf (gceSpec ''example.com'' [])) []) =
      Inr (Some [''/usr/bin/dns-controller'', ''--watch-ingress=false'', ''--dns=google-clouddns'',
                 ''--zone=example.com'', ''--zone=*/*'', ''-v=2''], None)
   \<and> fst (DnsControllerArgv sampleGossip (ctxOf (gceSpec [] [])) []) =
      Inr (Some [''/usr/bin/dns-controller'', ''--watch-ingress=false'', ''--dns=google-clouddns'',
                 ''--zone=*/*'', ''-v=2''], None)
   \<and> ''--zone=*/Z123'' \<in> set [''/usr/bin/dns-controller'', ''--watch-ingress=false'',
                                   ''--dns=google-clouddns'', ''--zone=*/Z123'', ''--zone=*/*'', ''-v=2'']
   \<and> ''--zone=example.com'' \<in> set [''/usr/bin/dns-controller'', ''--watch-ingress=false'',
                                   ''--dns=google-clouddns'', ''--zone=example.com'', ''--zone=*/*'',
                                   ''-v=2'']
   \<and> ''--zone='' \<notin> set [''/usr/bin/dns-controller'', ''--watch-ingress=false'',
                            ''--dns=google-clouddns'', ''--zone=*/*'', ''-v=2'']
   \<and> ''--zone=*/'' \<notin> set [''/usr/bin/dns-controller'', ''--watch-ingress=false'',
                              ''--dns=google-clouddns'', ''--zone=*/*'', ''-v=2'']"
proof -
  have i: "fst (DnsControllerArgv sampleGossip (ctxOf (gceSpec ''Z123'' [])) []) =
      Inr (Some [''/usr/bin/dns-controller'', ''--watch-ingress=false'', ''--dns=google-clouddns'',
                 ''--zone=*/Z123'', ''--zone=*/*'', ''-v=2''], None)"
    by (simp add: sample_defs argv_defs sampleGossip_def suffix_to_prefix)
  have n: "fst (DnsControllerArgv sampleGossip (ctxOf (gceSpec ''example.com'' [])) []) =
      Inr (Some [''/usr/bin/dns-controller'', ''--watch-ingress=false'', ''--dns=google-clouddns'',
                 ''--zone=example.com'', ''--zone=*/*'', ''-v=2''], None)"
    by (simp add: sample_defs argv_defs sampleGossip_def suffix_to_prefix)
  have e: "fst (DnsControllerArgv sampleGossip (ctxOf (gceSpec [] [])) []) =
      Inr (Some [''/usr/bin/dns-controller'', ''--watch-ingress=false'', ''--dns=google-clouddns'',
                 ''--zone=*/*'', ''-v=2''], None)"
    by (simp add: sample_defs argv_defs sampleGossip_def suffix_to_prefix)
  have zi: "DNSZone (Spec (cluster (ctxOf (gceSpec ''Z123'' [])))) = ''Z123''"
    and zn: "DNSZone (Spec (cluster (ctxOf (gceSpec ''example.com'' [])))) = ''example.com''"
    and ze: "DNSZone (Spec (cluster (ctxOf (gceSpec [] [])))) = []"
    by (simp_all add: sample_defs)
  from DnsControllerArgv_zone_flags [OF i] zi
  have a: "''--zone=*/Z123'' \<in> set [''/usr/bin/dns-controller'', ''--watch-ingress=false'',
                                   ''--dns=google-clouddns'', ''--zone=*/Z123'', ''--zone=*/*'', ''-v=2'']"
    by simp
  from DnsControllerArgv_zone_flags [OF n] zn
  have b: "''--zone=example.com'' \<in> set [''/usr/bin/dns-controller'', ''--watch-ingress=false'',
                                   ''--dns=google-clouddns'', ''--zone=example.com'', ''--zone=*/*'',
                                   ''-v=2'']"
    by simp
  from DnsControllerArgv_zone_flags [OF e] ze
  have c: "''--zone='' \<notin> set [''/usr/bin/dns-controller'', ''--watch-ingress=false'',
                            ''--dns=google-clouddns'', ''--zone=*/*'', ''-v=2'']
   \<and> ''--zone=*/'' \<notin> set [''/usr/bin/dns-controller'', ''--watch-ingress=false'',
                              ''--dns=google-clouddns'', ''--zone=*/*'', ''-v=2'']"
    by simp
  from i n e a b c show ?thesis
    by simp
qed
section \<open>Instance-group lookup\<close>

text \<open>
  C6. GetInstanceGroup returns a group of the collection whose name equals the requested
  name when there is one, and otherwise the error built from the format
  \<^verbatim>\<open>InstanceGroup %q not found\<close> and the requested name. With groups master-1
  and node-1, looking up node-1 returns that group and looking up node-2 fails.
\<close>

theorem GetInstanceGroup_exact_match:
  "((\<exists>ig\<in>set (instanceGroups tf). Name (ObjectMeta ig) = name) \<longrightarrow>
      (\<exists>ig. GetInstanceGroup tf name = (Some ig, None)
            \<and> ig \<in> set (instanceGroups tf) \<and> Name (ObjectMeta ig) = name))
   \<and> ((\<forall>ig\<in>set (instanceGroups tf). Name (ObjectMeta ig) \<noteq> name) \<longrightarrow>
      GetInstanceGroup tf name = (None, Some (Errorf ''InstanceGroup %q not found'' [name])))"
proof (cases "GetInstanceGroup_range (instanceGroups tf) name")
  case None
  then have "\<forall>ig\<in>set (instanceGroups tf). Name (ObjectMeta ig) \<noteq> name"
    by (simp add: GetInstanceGroup_range_None)
  with None show ?thesis
    by (auto simp: GetInstanceGroup_def)
next
  case (Some ig)
  from GetInstanceGroup_range_Some [OF Some] Some show ?thesis
    by (auto simp: GetInstanceGroup_def)
qed

theorem GetInstanceGroup_exact_match_witness:
  "GetInstanceGroup (groupsCtx sampleIGs) ''node-1'' =
      (Some \<lparr>ObjectMeta = \<lparr>Name = ''node-1''\<rparr>, \<dots> = 1\<rparr>, None)
   \<and> GetInstanceGroup (groupsCtx sampleIGs) ''node-2'' =
      (None, Some (Errorf ''InstanceGroup %q not found'' [''node-2'']))"
  using GetInstanceGroup_exact_match [of "groupsCtx sampleIGs" "''node-1''"]
    GetInstanceGroup_exact_match [of "groupsCtx sampleIGs" "''node-2''"]
  by (auto simp: groupsCtx_def sampleIGs_def)

text \<open>
  C10. When several groups carry the requested name, GetInstanceGroup returns the one at
  the least index of the collection, without error.
\<close>

theorem GetInstanceGroup_first_match:
  assumes "i < length (instanceGroups tf)"
    and "Name (ObjectMeta (instanceGroups tf ! i)) = name"
    and "\<forall>j<i. Name (ObjectMeta (instanceGroups tf ! j)) \<noteq> name"
  shows "GetInstanceGroup tf name = (Some (instanceGroups tf ! i), None)"
  using GetInstanceGroup_range_first [OF assms] by (simp add: GetInstanceGroup_def)

theorem GetInstanceGroup_first_match_witness:
  "(1::nat) < length (instanceGroups (groupsCtx dupIGs))
   \<and> Name (ObjectMeta (instanceGroups (groupsCtx dupIGs) ! 0)) = ''master-1''
   \<and> Name (ObjectMeta (instanceGroups (groupsCtx dupIGs) ! 1)) = ''node-1''
   \<and> Name (ObjectMeta (instanceGroups (groupsCtx dupIGs) ! 2)) = ''node-1''
   \<and> GetInstanceGroup (groupsCtx dupIGs) ''node-1'' =
        (Some \<lparr>ObjectMeta = \<lparr>Name = ''node-1''\<rparr>, \<dots> = 1\<rparr>, None)"
proof -
  have a: "(1::nat) < length (instanceGroups (groupsCtx dupIGs))"
    by (simp add: groupsCtx_def dupIGs_def)
  have z: "Name (ObjectMeta (instanceGroups (groupsCtx dupIGs) ! 0)) = ''master-1''"
    by (simp add: groupsCtx_def dupIGs_def)
  have b: "Name (ObjectMeta (instanceGroups (groupsCtx dupIGs) ! 1)) = ''node-1''"
    by (simp add: groupsCtx_def dupIGs_def)
  have b2: "Name (ObjectMeta (instanceGroups (groupsCtx dupIGs) ! 2)) = ''node-1''"
    by (simp add: groupsCtx_def dupIGs_def)
  have c: "\<forall>j<1. Name (ObjectMeta (instanceGroups (groupsCtx dupIGs) ! j)) \<noteq> ''node-1''"
    using z by simp
  have d: "instanceGroups (groupsCtx dupIGs) ! 1 = \<lparr>ObjectMeta = \<lparr>Name = ''node-1''\<rparr>, \<dots> = 1\<rparr>"
    by (simp add: groupsCtx_def dupIGs_def)
  from GetInstanceGroup_first_match [OF a b c] a z b b2 d show ?thesis
    by simp
qed

section \<open>Determinism\<close>

text \<open>
  C8. The result of DnsControllerArgv does not depend on the state of the log, so a
  second invocation after the first returns the same result; the results of both
  synthesizers depend on the cluster of the context only.
\<close>

theorem synthesizers_deterministic:
  "fst (DnsControllerArgv G tf lg) = fst (DnsControllerArgv G tf lg')
   \<and> fst (DnsControllerArgv G tf (snd (DnsControllerArgv G tf lg))) = fst (DnsControllerArgv G tf lg)
   \<and> fst (DnsControllerArgv G (tf\<lparr>instanceGroups := igs, tags := ts, region := r\<rparr>) lg)
       = fst (DnsControllerArgv G tf lg)
   \<and> ExternalDnsArgv (tf\<lparr>instanceGroups := igs, tags := ts, region := r\<rparr>) = ExternalDnsArgv tf"
  by (simp add: DnsControllerArgv_reads_cluster [of tf tf]
      DnsControllerArgv_reads_cluster [of "tf\<lparr>instanceGroups := igs, tags := ts, region := r\<rparr>" tf]
      ExternalDnsArgv_reads_cluster [of "tf\<lparr>instanceGroups := igs, tags := ts, region := r\<rparr>" tf])

end
